theory Spec2Isabelle
  imports Complex_Main
begin

section \<open>FarmFlow storage layer: data model\<close>

text \<open>
  The development embeds \<^verbatim>\<open>server/storage.ts\<close> (its first, current version: the
  interface \<^verbatim>\<open>IStorage\<close> with the two backends \<^verbatim>\<open>MemStorage\<close> and
  \<^verbatim>\<open>DatabaseStorage\<close>) together with the row types of \<^verbatim>\<open>shared/schema.ts\<close>.

  Conventions of the embedding.
  \<^item> A due date or service date is a value of type \<open>jsdate\<close>: a \<^verbatim>\<open>Date\<close> object, or a
    string that writes a date (the declared type of these fields, and what a JSON
    body carries). Strings that denote no date are outside the model.
  \<^item> The timestamps \<^verbatim>\<open>createdAt\<close> and \<^verbatim>\<open>lastUpdated\<close> are \<^verbatim>\<open>Date\<close> objects, as their
    declared type says: the instant in milliseconds since the epoch.
  \<^item> Every operation reads the clock once; the reading is the argument \<open>now\<close>. The
    host's offset from UTC is the argument \<open>tz\<close> (milliseconds); it is taken constant
    over the local day of the call, so the day of a daylight-saving change is outside
    the model.
  \<^item> A stored field that can hold \<^verbatim>\<open>null\<close> or be left \<^verbatim>\<open>undefined\<close> has an option
    type, \<open>None\<close> standing for both: the code reads stored records by truthiness and
    by \<^verbatim>\<open>??\<close> only.
  \<^item> In a patch (\<^verbatim>\<open>Partial<T>\<close>) \<open>None\<close> is an absent key; a nullable column has
    type \<open>_ option option\<close>, \<open>Some None\<close> being an explicit \<^verbatim>\<open>null\<close>.
  \<^item> Quantities are JavaScript numbers: finite doubles, taken as the reals they
    denote. The database columns of type \<^verbatim>\<open>real\<close> round them to single precision
    (PostgreSQL 12 or later, which writes such a number in the shortest decimal that
    denotes it).
  \<^item> Identifiers, user ids and counters are JavaScript numbers that are natural
    numbers; the counters count exactly below \<open>2 ^ 53\<close>.
\<close>

subsection \<open>Dates\<close>

text \<open>\<open>DateObject t\<close> is a \<^verbatim>\<open>Date\<close> object whose \<^verbatim>\<open>getTime()\<close> is \<open>t\<close>. \<open>DateString d t\<close>
  is a string that writes a date: \<open>d\<close> is the calendar day written in it (in days since
  1 January 1970) and \<open>t\<close> the instant of \<^verbatim>\<open>new Date(string)\<close>. The date-only string
  \<^verbatim>\<open>YYYY-MM-DD\<close> of day \<open>d\<close> denotes the UTC midnight of that day.\<close>

datatype jsdate = DateObject int | DateString int int

definition msPerDay :: int where
  "msPerDay = 86400000"

text \<open>\<^verbatim>\<open>new Date(x).getTime()\<close>\<close>

fun getTime :: "jsdate \<Rightarrow> int" where
  "getTime (DateObject t) = t"
| "getTime (DateString d t) = t"

definition dateOnly :: "int \<Rightarrow> jsdate" where
  "dateOnly d = DateString d (d * msPerDay)"

text \<open>\<^verbatim>\<open>new Date(t).toISOString()\<close>: the string writes the UTC date and time of \<open>t\<close>.\<close>

definition toISOString :: "int \<Rightarrow> jsdate" where
  "toISOString t = DateString (t div msPerDay) t"

text \<open>\<^verbatim>\<open>const today = new Date(); today.setHours(0, 0, 0, 0)\<close>: the instant of the last
  local midnight.\<close>

definition setHours0 :: "int \<Rightarrow> int \<Rightarrow> int" where
  "setHours0 tz now = now - (now + tz) mod msPerDay"

text \<open>The local calendar day of an instant, as a day number. The code never computes
  it; the specification's rule is written with it.\<close>

definition dayOf :: "int \<Rightarrow> int \<Rightarrow> int" where
  "dayOf tz t = (t + tz) div msPerDay"

subsection \<open>Rows (\<^verbatim>\<open>$inferSelect\<close>), insert records and patches\<close>

record task =
  task_id :: nat
  task_title :: string
  task_description :: "string option"
  task_dueDate :: jsdate
  task_priority :: "string option"
  task_status :: string
  task_completed :: "bool option"
  task_assignedTo :: "string option"
  task_userId :: nat
  task_recurring :: "string option"
  task_createdAt :: int

record insert_task =
  it_title :: string
  it_description :: "string option"
  it_dueDate :: jsdate
  it_priority :: "string option"
  it_status :: "string option"
  it_completed :: "bool option"
  it_assignedTo :: "string option"
  it_userId :: nat
  it_recurring :: "string option"

record task_patch =
  pt_id :: "nat option"
  pt_title :: "string option"
  pt_description :: "string option option"
  pt_dueDate :: "jsdate option"
  pt_priority :: "string option"
  pt_status :: "string option"
  pt_completed :: "bool option"
  pt_assignedTo :: "string option"
  pt_userId :: "nat option"
  pt_recurring :: "string option option"
  pt_createdAt :: "int option"

record inventory =
  inv_id :: nat
  inv_name :: string
  inv_category :: string
  inv_quantity :: real
  inv_unit :: string
  inv_threshold :: real
  inv_status :: string
  inv_userId :: nat
  inv_lastUpdated :: int

record insert_inventory =
  ii_name :: string
  ii_category :: string
  ii_quantity :: real
  ii_unit :: string
  ii_threshold :: real
  ii_userId :: nat

record inventory_patch =
  pi_id :: "nat option"
  pi_name :: "string option"
  pi_category :: "string option"
  pi_quantity :: "real option"
  pi_unit :: "string option"
  pi_threshold :: "real option"
  pi_status :: "string option"
  pi_userId :: "nat option"
  pi_lastUpdated :: "int option"

record equipment =
  eq_id :: nat
  eq_name :: string
  eq_status :: "string option"
  eq_lastUsed :: "jsdate option"
  eq_assignedTo :: "string option"
  eq_nextService :: "jsdate option"
  eq_userId :: nat

record insert_equipment =
  ie_name :: string
  ie_status :: "string option"
  ie_lastUsed :: "jsdate option"
  ie_assignedTo :: "string option"
  ie_nextService :: "jsdate option"
  ie_userId :: nat

record equipment_patch =
  pe_id :: "nat option"
  pe_name :: "string option"
  pe_status :: "string option"
  pe_lastUsed :: "jsdate option option"
  pe_assignedTo :: "string option option"
  pe_nextService :: "jsdate option option"
  pe_userId :: "nat option"

record contact =
  ct_id :: nat
  ct_name :: string
  ct_type :: string
  ct_email :: "string option"
  ct_phone :: "string option"
  ct_address :: "string option"
  ct_notes :: "string option"
  ct_userId :: nat

record insert_contact =
  ic_name :: string
  ic_type :: string
  ic_email :: "string option"
  ic_phone :: "string option"
  ic_address :: "string option"
  ic_notes :: "string option"
  ic_userId :: nat

record contact_patch =
  pc_id :: "nat option"
  pc_name :: "string option"
  pc_type :: "string option"
  pc_email :: "string option option"
  pc_phone :: "string option option"
  pc_address :: "string option option"
  pc_notes :: "string option option"
  pc_userId :: "nat option"

record user =
  u_id :: nat
  u_username :: string
  u_password :: string
  u_email :: string
  u_name :: string
  u_farmName :: string
  u_role :: "string option"
  u_profileImage :: "string option"
  u_language :: "string option"

record insert_user =
  iu_username :: string
  iu_password :: string
  iu_email :: string
  iu_name :: string
  iu_farmName :: string
  iu_role :: "string option"
  iu_profileImage :: "string option"
  iu_language :: "string option"

record user_patch =
  pu_id :: "nat option"
  pu_username :: "string option"
  pu_password :: "string option"
  pu_email :: "string option"
  pu_name :: "string option"
  pu_farmName :: "string option"
  pu_role :: "string option"
  pu_profileImage :: "string option option"
  pu_language :: "string option option"

subsection \<open>Object spread\<close>

text \<open>\<^verbatim>\<open>{ ...old, ...data }\<close>, one key at a time: the key of \<open>data\<close> wins when it is
  present.\<close>

definition spread :: "'a \<Rightarrow> 'a option \<Rightarrow> 'a" where
  "spread old new = (case new of None \<Rightarrow> old | Some v \<Rightarrow> v)"

text \<open>The same for a key that the stored record may lack while the patch, when it has
  the key, has a value for it.\<close>

definition spreadSome :: "'a option \<Rightarrow> 'a option \<Rightarrow> 'a option" where
  "spreadSome old new = (case new of None \<Rightarrow> old | Some v \<Rightarrow> Some v)"

section \<open>The in-memory backend (\<^verbatim>\<open>MemStorage\<close>)\<close>

text \<open>The private fields of the class: one \<^verbatim>\<open>Map\<close> and one counter for each kind of
  record (the weather preferences, which no operation below touches, are left out).\<close>

record mem_storage =
  users :: "nat \<rightharpoonup> user"
  tasks :: "nat \<rightharpoonup> task"
  inventoryItems :: "nat \<rightharpoonup> inventory"
  equipmentItems :: "nat \<rightharpoonup> equipment"
  contactItems :: "nat \<rightharpoonup> contact"
  userIdCounter :: nat
  taskIdCounter :: nat
  inventoryIdCounter :: nat
  equipmentIdCounter :: nat
  contactIdCounter :: nat

text \<open>The constructor's fields before it adds the demo records (which it adds with the
  create operations below).\<close>

definition newMemStorage :: mem_storage where
  "newMemStorage =
     \<lparr>users = Map.empty, tasks = Map.empty, inventoryItems = Map.empty,
      equipmentItems = Map.empty, contactItems = Map.empty,
      userIdCounter = 1, taskIdCounter = 1, inventoryIdCounter = 1,
      equipmentIdCounter = 1, contactIdCounter = 1\<rparr>"

text \<open>What a method of the class throws.\<close>

datatype js_error = TypeError

subsection \<open>Tasks\<close>

definition MemStorage_getTask :: "nat \<Rightarrow> mem_storage \<Rightarrow> task option" where
  "MemStorage_getTask i s = tasks s i"

text \<open>\<^verbatim>\<open>createTask\<close>: the due date is stored as \<^verbatim>\<open>new Date(insertTask.dueDate)\<close>. The
  spread copies the caller's \<^verbatim>\<open>status\<close>; each of the four branches then assigns
  \<^verbatim>\<open>task.status\<close>, so the record is written here with the assigned value.\<close>

definition MemStorage_createTask ::
    "int \<Rightarrow> int \<Rightarrow> insert_task \<Rightarrow> mem_storage \<Rightarrow> task \<times> mem_storage" where
  "MemStorage_createTask tz now insertTask s =
     (let i = taskIdCounter s;
          dueDate = getTime (it_dueDate insertTask);
          today = setHours0 tz now;
          status =
            (if it_completed insertTask = Some True then ''completed''
             else if dueDate < today then ''overdue''
             else if dueDate = today then ''today''
             else ''upcoming'');
          task =
            \<lparr>task_id = i,
             task_title = it_title insertTask,
             task_description = it_description insertTask,
             task_dueDate = DateObject dueDate,
             task_priority = it_priority insertTask,
             task_status = status,
             task_completed = it_completed insertTask,
             task_assignedTo = it_assignedTo insertTask,
             task_userId = it_userId insertTask,
             task_recurring = it_recurring insertTask,
             task_createdAt = now\<rparr>
      in (task, s\<lparr>tasks := (tasks s)(i \<mapsto> task), taskIdCounter := i + 1\<rparr>))"

text \<open>\<^verbatim>\<open>{ ...task, ...data }\<close> for a task.\<close>

definition spreadTask :: "task \<Rightarrow> task_patch \<Rightarrow> task" where
  "spreadTask task data =
     \<lparr>task_id = spread (task_id task) (pt_id data),
      task_title = spread (task_title task) (pt_title data),
      task_description = spread (task_description task) (pt_description data),
      task_dueDate = spread (task_dueDate task) (pt_dueDate data),
      task_priority = spreadSome (task_priority task) (pt_priority data),
      task_status = spread (task_status task) (pt_status data),
      task_completed = spreadSome (task_completed task) (pt_completed data),
      task_assignedTo = spreadSome (task_assignedTo task) (pt_assignedTo data),
      task_userId = spread (task_userId task) (pt_userId data),
      task_recurring = spread (task_recurring task) (pt_recurring data),
      task_createdAt = spread (task_createdAt task) (pt_createdAt data)\<rparr>"

text \<open>\<^verbatim>\<open>updateTask\<close> reads \<^verbatim>\<open>updatedTask.dueDate\<close> as it is, with no \<^verbatim>\<open>new Date\<close>. When
  it is a string, \<^verbatim>\<open>dueDate < today\<close> compares the number that the string is not with
  a number and is false, and \<^verbatim>\<open>dueDate.getTime()\<close> then throws a \<^verbatim>\<open>TypeError\<close>, before
  anything is stored.\<close>

definition MemStorage_updateTask ::
    "int \<Rightarrow> int \<Rightarrow> nat \<Rightarrow> task_patch \<Rightarrow> mem_storage \<Rightarrow>
     (js_error + task option) \<times> mem_storage" where
  "MemStorage_updateTask tz now i data s =
     (case MemStorage_getTask i s of
        None \<Rightarrow> (Inr None, s)
      | Some task \<Rightarrow>
          (let updatedTask0 = spreadTask task data;
               updated =
                 (case pt_completed data of
                    None \<Rightarrow> Inr updatedTask0
                  | Some c \<Rightarrow>
                      if c then Inr (updatedTask0\<lparr>task_status := ''completed''\<rparr>)
                      else
                        (let today = setHours0 tz now
                         in case task_dueDate updatedTask0 of
                              DateString w t \<Rightarrow> Inl TypeError
                            | DateObject dueDate \<Rightarrow>
                                if dueDate < today
                                  then Inr (updatedTask0\<lparr>task_status := ''overdue''\<rparr>)
                                else if dueDate = today
                                  then Inr (updatedTask0\<lparr>task_status := ''today''\<rparr>)
                                else Inr (updatedTask0\<lparr>task_status := ''upcoming''\<rparr>)))
           in case updated of
                Inl e \<Rightarrow> (Inl e, s)
              | Inr updatedTask \<Rightarrow>
                  (Inr (Some updatedTask), s\<lparr>tasks := (tasks s)(i \<mapsto> updatedTask)\<rparr>)))"

text \<open>\<^verbatim>\<open>Map.prototype.delete\<close> answers whether the key was there.\<close>

definition MemStorage_deleteTask :: "nat \<Rightarrow> mem_storage \<Rightarrow> bool \<times> mem_storage" where
  "MemStorage_deleteTask i s = (tasks s i \<noteq> None, s\<lparr>tasks := (tasks s)(i := None)\<rparr>)"

subsection \<open>Inventory\<close>

definition MemStorage_getInventoryItem :: "nat \<Rightarrow> mem_storage \<Rightarrow> inventory option" where
  "MemStorage_getInventoryItem i s = inventoryItems s i"

definition MemStorage_createInventoryItem ::
    "int \<Rightarrow> insert_inventory \<Rightarrow> mem_storage \<Rightarrow> inventory \<times> mem_storage" where
  "MemStorage_createInventoryItem now insertItem s =
     (let i = inventoryIdCounter s;
          status = (if ii_quantity insertItem < ii_threshold insertItem then ''low'' else ''good'');
          item =
            \<lparr>inv_id = i,
             inv_name = ii_name insertItem,
             inv_category = ii_category insertItem,
             inv_quantity = ii_quantity insertItem,
             inv_unit = ii_unit insertItem,
             inv_threshold = ii_threshold insertItem,
             inv_status = status,
             inv_userId = ii_userId insertItem,
             inv_lastUpdated = now\<rparr>
      in (item, s\<lparr>inventoryItems := (inventoryItems s)(i \<mapsto> item),
                  inventoryIdCounter := i + 1\<rparr>))"

definition spreadInventory :: "inventory \<Rightarrow> inventory_patch \<Rightarrow> inventory" where
  "spreadInventory item data =
     \<lparr>inv_id = spread (inv_id item) (pi_id data),
      inv_name = spread (inv_name item) (pi_name data),
      inv_category = spread (inv_category item) (pi_category data),
      inv_quantity = spread (inv_quantity item) (pi_quantity data),
      inv_unit = spread (inv_unit item) (pi_unit data),
      inv_threshold = spread (inv_threshold item) (pi_threshold data),
      inv_status = spread (inv_status item) (pi_status data),
      inv_userId = spread (inv_userId item) (pi_userId data),
      inv_lastUpdated = spread (inv_lastUpdated item) (pi_lastUpdated data)\<rparr>"

definition MemStorage_updateInventoryItem ::
    "int \<Rightarrow> nat \<Rightarrow> inventory_patch \<Rightarrow> mem_storage \<Rightarrow> inventory option \<times> mem_storage" where
  "MemStorage_updateInventoryItem now i data s =
     (case MemStorage_getInventoryItem i s of
        None \<Rightarrow> (None, s)
      | Some item \<Rightarrow>
          (let updatedItem0 = (spreadInventory item data)\<lparr>inv_lastUpdated := now\<rparr>;
               updatedItem =
                 (if pi_quantity data \<noteq> None \<or> pi_threshold data \<noteq> None
                  then
                    (let quantity = spread (inv_quantity item) (pi_quantity data);
                         threshold = spread (inv_threshold item) (pi_threshold data)
                     in updatedItem0
                          \<lparr>inv_status := (if quantity < threshold then ''low'' else ''good'')\<rparr>)
                  else updatedItem0)
           in (Some updatedItem, s\<lparr>inventoryItems := (inventoryItems s)(i \<mapsto> updatedItem)\<rparr>)))"

definition MemStorage_deleteInventoryItem :: "nat \<Rightarrow> mem_storage \<Rightarrow> bool \<times> mem_storage" where
  "MemStorage_deleteInventoryItem i s =
     (inventoryItems s i \<noteq> None, s\<lparr>inventoryItems := (inventoryItems s)(i := None)\<rparr>)"

subsection \<open>Equipment\<close>

definition MemStorage_getEquipmentItem :: "nat \<Rightarrow> mem_storage \<Rightarrow> equipment option" where
  "MemStorage_getEquipmentItem i s = equipmentItems s i"

text \<open>\<^verbatim>\<open>x ? new Date(x) : null\<close>, then \<^verbatim>\<open>d ? d.toISOString() : null\<close>.\<close>

definition isoOrNull :: "jsdate option \<Rightarrow> jsdate option" where
  "isoOrNull x = (case x of None \<Rightarrow> None | Some d \<Rightarrow> Some (toISOString (getTime d)))"

definition MemStorage_createEquipmentItem ::
    "insert_equipment \<Rightarrow> mem_storage \<Rightarrow> equipment \<times> mem_storage" where
  "MemStorage_createEquipmentItem insertItem s =
     (let i = equipmentIdCounter s;
          item =
            \<lparr>eq_id = i,
             eq_name = ie_name insertItem,
             eq_status = ie_status insertItem,
             eq_lastUsed = isoOrNull (ie_lastUsed insertItem),
             eq_assignedTo = ie_assignedTo insertItem,
             eq_nextService = isoOrNull (ie_nextService insertItem),
             eq_userId = ie_userId insertItem\<rparr>
      in (item, s\<lparr>equipmentItems := (equipmentItems s)(i \<mapsto> item),
                  equipmentIdCounter := i + 1\<rparr>))"

definition spreadEquipment :: "equipment \<Rightarrow> equipment_patch \<Rightarrow> equipment" where
  "spreadEquipment item data =
     \<lparr>eq_id = spread (eq_id item) (pe_id data),
      eq_name = spread (eq_name item) (pe_name data),
      eq_status = spreadSome (eq_status item) (pe_status data),
      eq_lastUsed = spread (eq_lastUsed item) (pe_lastUsed data),
      eq_assignedTo = spread (eq_assignedTo item) (pe_assignedTo data),
      eq_nextService = spread (eq_nextService item) (pe_nextService data),
      eq_userId = spread (eq_userId item) (pe_userId data)\<rparr>"

text \<open>\<^verbatim>\<open>const d = data.x ? new Date(data.x) : item.x\<close>, then
  \<^verbatim>\<open>typeof d === 'string' ? d : (d ? new Date(d).toISOString() : null)\<close>: a date of the
  patch is rewritten as an ISO string; an absent key and an explicit \<^verbatim>\<open>null\<close> both
  keep the stored date.\<close>

definition patchedDate :: "jsdate option option \<Rightarrow> jsdate option \<Rightarrow> jsdate option" where
  "patchedDate new old =
     (case new of
        Some (Some d) \<Rightarrow> Some (toISOString (getTime d))
      | _ \<Rightarrow>
          (case old of
             None \<Rightarrow> None
           | Some (DateString w t) \<Rightarrow> Some (DateString w t)
           | Some (DateObject t) \<Rightarrow> Some (toISOString t)))"

definition MemStorage_updateEquipmentItem ::
    "nat \<Rightarrow> equipment_patch \<Rightarrow> mem_storage \<Rightarrow> equipment option \<times> mem_storage" where
  "MemStorage_updateEquipmentItem i data s =
     (case MemStorage_getEquipmentItem i s of
        None \<Rightarrow> (None, s)
      | Some item \<Rightarrow>
          (let updatedItem =
                 (spreadEquipment item data)
                   \<lparr>eq_lastUsed := patchedDate (pe_lastUsed data) (eq_lastUsed item),
                    eq_nextService := patchedDate (pe_nextService data) (eq_nextService item)\<rparr>
           in (Some updatedItem, s\<lparr>equipmentItems := (equipmentItems s)(i \<mapsto> updatedItem)\<rparr>)))"

definition MemStorage_deleteEquipmentItem :: "nat \<Rightarrow> mem_storage \<Rightarrow> bool \<times> mem_storage" where
  "MemStorage_deleteEquipmentItem i s =
     (equipmentItems s i \<noteq> None, s\<lparr>equipmentItems := (equipmentItems s)(i := None)\<rparr>)"

subsection \<open>Contacts\<close>

definition MemStorage_getContact :: "nat \<Rightarrow> mem_storage \<Rightarrow> contact option" where
  "MemStorage_getContact i s = contactItems s i"

text \<open>\<^verbatim>\<open>x || null\<close> on an optional string: the empty string is falsy.\<close>

definition orNull :: "string option \<Rightarrow> string option" where
  "orNull x = (case x of None \<Rightarrow> None | Some v \<Rightarrow> if v = [] then None else Some v)"

definition MemStorage_createContact ::
    "insert_contact \<Rightarrow> mem_storage \<Rightarrow> contact \<times> mem_storage" where
  "MemStorage_createContact insertContact s =
     (let i = contactIdCounter s;
          contact =
            \<lparr>ct_id = i,
             ct_name = ic_name insertContact,
             ct_type = ic_type insertContact,
             ct_email = orNull (ic_email insertContact),
             ct_phone = orNull (ic_phone insertContact),
             ct_address = orNull (ic_address insertContact),
             ct_notes = orNull (ic_notes insertContact),
             ct_userId = ic_userId insertContact\<rparr>
      in (contact, s\<lparr>contactItems := (contactItems s)(i \<mapsto> contact),
                     contactIdCounter := i + 1\<rparr>))"

definition spreadContact :: "contact \<Rightarrow> contact_patch \<Rightarrow> contact" where
  "spreadContact contact data =
     \<lparr>ct_id = spread (ct_id contact) (pc_id data),
      ct_name = spread (ct_name contact) (pc_name data),
      ct_type = spread (ct_type contact) (pc_type data),
      ct_email = spread (ct_email contact) (pc_email data),
      ct_phone = spread (ct_phone contact) (pc_phone data),
      ct_address = spread (ct_address contact) (pc_address data),
      ct_notes = spread (ct_notes contact) (pc_notes data),
      ct_userId = spread (ct_userId contact) (pc_userId data)\<rparr>"

definition MemStorage_updateContact ::
    "nat \<Rightarrow> contact_patch \<Rightarrow> mem_storage \<Rightarrow> contact option \<times> mem_storage" where
  "MemStorage_updateContact i data s =
     (case MemStorage_getContact i s of
        None \<Rightarrow> (None, s)
      | Some contact \<Rightarrow>
          (let updatedContact = spreadContact contact data
           in (Some updatedContact,
               s\<lparr>contactItems := (contactItems s)(i \<mapsto> updatedContact)\<rparr>)))"

definition MemStorage_deleteContact :: "nat \<Rightarrow> mem_storage \<Rightarrow> bool \<times> mem_storage" where
  "MemStorage_deleteContact i s =
     (contactItems s i \<noteq> None, s\<lparr>contactItems := (contactItems s)(i := None)\<rparr>)"

subsection \<open>Users\<close>

definition MemStorage_getUser :: "nat \<Rightarrow> mem_storage \<Rightarrow> user option" where
  "MemStorage_getUser i s = users s i"

definition MemStorage_createUser :: "insert_user \<Rightarrow> mem_storage \<Rightarrow> user \<times> mem_storage" where
  "MemStorage_createUser insertUser s =
     (let i = userIdCounter s;
          user =
            \<lparr>u_id = i,
             u_username = iu_username insertUser,
             u_password = iu_password insertUser,
             u_email = iu_email insertUser,
             u_name = iu_name insertUser,
             u_farmName = iu_farmName insertUser,
             u_role = iu_role insertUser,
             u_profileImage = iu_profileImage insertUser,
             u_language = iu_language insertUser\<rparr>
      in (user, s\<lparr>users := (users s)(i \<mapsto> user), userIdCounter := i + 1\<rparr>))"

definition spreadUser :: "user \<Rightarrow> user_patch \<Rightarrow> user" where
  "spreadUser user data =
     \<lparr>u_id = spread (u_id user) (pu_id data),
      u_username = spread (u_username user) (pu_username data),
      u_password = spread (u_password user) (pu_password data),
      u_email = spread (u_email user) (pu_email data),
      u_name = spread (u_name user) (pu_name data),
      u_farmName = spread (u_farmName user) (pu_farmName data),
      u_role = spreadSome (u_role user) (pu_role data),
      u_profileImage = spread (u_profileImage user) (pu_profileImage data),
      u_language = spread (u_language user) (pu_language data)\<rparr>"

definition MemStorage_updateUser ::
    "nat \<Rightarrow> user_patch \<Rightarrow> mem_storage \<Rightarrow> user option \<times> mem_storage" where
  "MemStorage_updateUser i data s =
     (case MemStorage_getUser i s of
        None \<Rightarrow> (None, s)
      | Some user \<Rightarrow>
          (let updatedUser = spreadUser user data
           in (Some updatedUser, s\<lparr>users := (users s)(i \<mapsto> updatedUser)\<rparr>)))"

section \<open>The database backend (\<^verbatim>\<open>DatabaseStorage\<close>)\<close>

text \<open>
  The class sends every operation through the query builder to the connection \<^verbatim>\<open>db\<close>
  (\<^verbatim>\<open>server/db.ts\<close>, which is not among the sources): a PostgreSQL database with the
  tables that \<^verbatim>\<open>shared/schema.ts\<close> declares. The database is modelled by what its
  statements do to a table:
  \<^item> a table is the list of its rows and the next value of its \<^verbatim>\<open>serial\<close> key;
  \<^item> \<^verbatim>\<open>insert ... returning\<close> takes the key from the sequence, fills the columns the
    statement leaves out with their declared defaults, and answers the row;
  \<^item> \<^verbatim>\<open>update ... set ... where id = i returning\<close> writes the columns whose value is
    not \<^verbatim>\<open>undefined\<close>, and answers the rows it wrote; the query builder throws
    \<^verbatim>\<open>No values to set\<close> when no column has a value, before anything is sent;
  \<^item> \<^verbatim>\<open>delete ... where id = i\<close> answers how many rows it removed;
  \<^item> a number sent for a column of type \<^verbatim>\<open>integer\<close> or \<^verbatim>\<open>serial\<close> (also the \<open>i\<close> of
    \<^verbatim>\<open>where id = i\<close>) must be below \<open>2 ^ 31\<close>, and a number written to a column of type
    \<^verbatim>\<open>real\<close> is rounded to single precision and must stay in its range: otherwise
    the statement is rejected; the row of a \<^verbatim>\<open>returning\<close> or a \<^verbatim>\<open>select\<close> holds the
    number as the driver reads it back (\<open>realColumn\<close> below);
  \<^item> a statement that would leave two rows with one primary key (or one value of a
    \<^verbatim>\<open>unique\<close> column) is rejected; a rejected insert has still advanced the sequence;
  \<^item> a rejected statement changes no row and the promise rejects: the result \<open>Inl\<close>;
  \<^item> a column of type \<^verbatim>\<open>date\<close> keeps the calendar day written in the string it is
    given (for a \<^verbatim>\<open>Date\<close> object: in its ISO string); read back, it is the date-only
    string of that day.
\<close>

datatype db_error = UniqueViolation | NoValuesToSet | NumericValueOutOfRange

record db_storage =
  db_users :: "user list"
  db_users_seq :: nat
  db_tasks :: "task list"
  db_tasks_seq :: nat
  db_inventory :: "inventory list"
  db_inventory_seq :: nat
  db_equipment :: "equipment list"
  db_equipment_seq :: nat
  db_contacts :: "contact list"
  db_contacts_seq :: nat

definition newDatabase :: db_storage where
  "newDatabase =
     \<lparr>db_users = [], db_users_seq = 1, db_tasks = [], db_tasks_seq = 1,
      db_inventory = [], db_inventory_seq = 1, db_equipment = [], db_equipment_seq = 1,
      db_contacts = [], db_contacts_seq = 1\<rparr>"

subsection \<open>Column types\<close>

definition int4 :: "nat \<Rightarrow> bool" where
  "int4 n \<longleftrightarrow> n \<le> 2147483647"

definition int4Opt :: "nat option \<Rightarrow> bool" where
  "int4Opt x = (case x of None \<Rightarrow> True | Some n \<Rightarrow> int4 n)"

definition dateColumn :: "jsdate \<Rightarrow> jsdate" where
  "dateColumn x =
     (case x of
        DateString d t \<Rightarrow> dateOnly d
      | DateObject t \<Rightarrow> dateOnly (t div msPerDay))"

text \<open>Single precision (\<^verbatim>\<open>real\<close>, IEEE 754 binary32): 24 significant bits, the least
  exponent \<open>-126\<close>, round to nearest, ties to the even significand. \<open>ilog2 n\<close> is the
  position of the leading bit of \<open>n\<close>, \<open>exponentOf x\<close> the binary exponent of \<open>x\<close>.\<close>

function ilog2 :: "int \<Rightarrow> int" where
  "ilog2 n = (if n \<le> 1 then 0 else 1 + ilog2 (n div 2))"
  by pat_completeness auto
termination
  by (relation "measure nat") auto

declare ilog2.simps [simp del]

definition pow2 :: "int \<Rightarrow> real" where
  "pow2 e = (if 0 \<le> e then 2 ^ nat e else 1 / 2 ^ nat (- e))"

definition exponentOf :: "real \<Rightarrow> int" where
  "exponentOf x =
     (if 1 \<le> \<bar>x\<bar> then ilog2 \<lfloor>\<bar>x\<bar>\<rfloor> else - (1 + ilog2 (\<lceil>1 / \<bar>x\<bar>\<rceil> - 1)))"

definition roundHalfEven :: "real \<Rightarrow> int" where
  "roundHalfEven y =
     (let f = \<lfloor>y\<rfloor>; r = y - of_int f
      in if r < 1 / 2 then f else if 1 / 2 < r then f + 1 else if even f then f else f + 1)"

definition float4 :: "real \<Rightarrow> real" where
  "float4 x =
     (if x = 0 then 0
      else (let ulp = pow2 (max (exponentOf x) (- 126) - 23)
            in of_int (roundHalfEven (x / ulp)) * ulp))"

text \<open>The largest single-precision number, \<open>(2 ^ 24 - 1) * 2 ^ 104\<close>. A number that rounds
  beyond it, or a number other than zero that rounds to zero, is out of range.\<close>

definition maxFloat4 :: real where
  "maxFloat4 = 340282346638528859811704183484516925440"

definition float4Fits :: "real \<Rightarrow> bool" where
  "float4Fits x \<longleftrightarrow> \<bar>float4 x\<bar> \<le> maxFloat4 \<and> (x = 0 \<or> float4 x \<noteq> 0)"

definition float4FitsOpt :: "real option \<Rightarrow> bool" where
  "float4FitsOpt x = (case x of None \<Rightarrow> True | Some v \<Rightarrow> float4Fits v)"

text \<open>Read back, a \<^verbatim>\<open>real\<close> column arrives as text and the driver parses it into a
  JavaScript number. The server writes a single-precision number with the fewest
  significant digits that still denote it and no other one (at most nine; of two such
  decimals the nearer): \<open>shortest\<close> tries one digit, then two, and so on, each time the
  two decimals of that length around the number. The driver's number is the double
  nearest to that decimal, \<open>float8\<close>. So \<open>0.1\<close> is stored as \<open>13421773 / 2 ^ 27\<close>
  and read as the double \<open>0.1\<close>, and \<open>16777217\<close> is stored and read as \<open>16777216\<close>.\<close>

function ilog10 :: "int \<Rightarrow> int" where
  "ilog10 n = (if n < 10 then 0 else 1 + ilog10 (n div 10))"
  by pat_completeness auto
termination
  by (relation "measure nat") auto

declare ilog10.simps [simp del]

definition pow10 :: "int \<Rightarrow> real" where
  "pow10 e = (if 0 \<le> e then 10 ^ nat e else 1 / 10 ^ nat (- e))"

definition exponent10Of :: "real \<Rightarrow> int" where
  "exponent10Of x =
     (if 1 \<le> \<bar>x\<bar> then ilog10 \<lfloor>\<bar>x\<bar>\<rfloor> else - (1 + ilog10 (\<lceil>1 / \<bar>x\<bar>\<rceil> - 1)))"

fun shortest :: "int list \<Rightarrow> real \<Rightarrow> real" where
  "shortest [] f = f"
| "shortest (k # ks) f =
     (let step = pow10 (exponent10Of f - k);
          lo = of_int \<lfloor>f / step\<rfloor> * step;
          hi = lo + step
      in if float4 lo = f \<and> (float4 hi \<noteq> f \<or> f - lo \<le> hi - f) then lo
         else if float4 hi = f then hi
         else shortest ks f)"

definition float4out :: "real \<Rightarrow> real" where
  "float4out f =
     (if f < 0 then - shortest [0, 1, 2, 3, 4, 5, 6, 7, 8] (- f)
      else if f = 0 then 0
      else shortest [0, 1, 2, 3, 4, 5, 6, 7, 8] f)"

definition float8 :: "real \<Rightarrow> real" where
  "float8 x =
     (if x = 0 then 0
      else (let ulp = pow2 (max (exponentOf x) (- 1022) - 52)
            in of_int (roundHalfEven (x / ulp)) * ulp))"

text \<open>What a row holds, as the code reads it, in a \<^verbatim>\<open>real\<close> column to which \<open>x\<close> was
  written.\<close>

definition realColumn :: "real \<Rightarrow> real" where
  "realColumn x = float8 (float4out (float4 x))"

subsection \<open>Statements\<close>

text \<open>\<^verbatim>\<open>const [row] = rows; return row || undefined\<close>\<close>

definition firstRow :: "'r list \<Rightarrow> 'r option" where
  "firstRow rows = (case rows of [] \<Rightarrow> None | r # _ \<Rightarrow> Some r)"

text \<open>\<^verbatim>\<open>const [row] = await db.select().from(t).where(eq(t.id, i)); return row || undefined\<close>\<close>

definition selectById :: "('r \<Rightarrow> nat) \<Rightarrow> nat \<Rightarrow> 'r list \<Rightarrow> db_error + 'r option" where
  "selectById key i rows =
     (if int4 i then Inr (firstRow (filter (\<lambda>r. key r = i) rows))
      else Inl NumericValueOutOfRange)"

text \<open>\<^verbatim>\<open>insert into t values (row)\<close>, the primary key checked.\<close>

definition insertRow :: "('r \<Rightarrow> nat) \<Rightarrow> 'r \<Rightarrow> 'r list \<Rightarrow> db_error + 'r list" where
  "insertRow key row rows =
     (if key row \<in> set (map key rows) then Inl UniqueViolation else Inr (rows @ [row]))"

text \<open>\<^verbatim>\<open>const [row] = await db.update(t).set(f).where(eq(t.id, i)).returning()\<close>: the
  first of the rows written, and the table after the statement.\<close>

definition updateById ::
    "('r \<Rightarrow> nat) \<Rightarrow> nat \<Rightarrow> ('r \<Rightarrow> 'r) \<Rightarrow> 'r list \<Rightarrow> db_error + ('r option \<times> 'r list)" where
  "updateById key i f rows =
     (if int4 i
      then
        (let rows' = map (\<lambda>r. if key r = i then f r else r) rows
         in if distinct (map key rows')
            then Inr (firstRow (map f (filter (\<lambda>r. key r = i) rows)), rows')
            else Inl UniqueViolation)
      else Inl NumericValueOutOfRange)"

text \<open>\<^verbatim>\<open>const result = await db.delete(t).where(eq(t.id, i)); return result.count > 0\<close>\<close>

definition deleteById :: "('r \<Rightarrow> nat) \<Rightarrow> nat \<Rightarrow> 'r list \<Rightarrow> db_error + (nat \<times> 'r list)" where
  "deleteById key i rows =
     (if int4 i
      then Inr (length (filter (\<lambda>r. key r = i) rows), filter (\<lambda>r. key r \<noteq> i) rows)
      else Inl NumericValueOutOfRange)"

subsection \<open>Tasks\<close>

definition DatabaseStorage_getTask :: "nat \<Rightarrow> db_storage \<Rightarrow> db_error + task option" where
  "DatabaseStorage_getTask i db = selectById task_id i (db_tasks db)"

text \<open>\<^verbatim>\<open>insertTask.status || "upcoming"\<close>: the empty string is falsy too. The status is
  computed from \<^verbatim>\<open>new Date(insertTask.dueDate)\<close>; the row is inserted with the due date
  as the caller gave it.\<close>

definition DatabaseStorage_createTask ::
    "int \<Rightarrow> int \<Rightarrow> insert_task \<Rightarrow> db_storage \<Rightarrow> (db_error + task) \<times> db_storage" where
  "DatabaseStorage_createTask tz now insertTask db =
     (let dueDate = getTime (it_dueDate insertTask);
          today = setHours0 tz now;
          status0 =
            (case it_status insertTask of
               None \<Rightarrow> ''upcoming''
             | Some st \<Rightarrow> if st = [] then ''upcoming'' else st);
          status =
            (if it_completed insertTask = Some True then ''completed''
             else if dueDate < today then ''overdue''
             else if dueDate = today then ''today''
             else status0);
          row =
            \<lparr>task_id = db_tasks_seq db,
             task_title = it_title insertTask,
             task_description = it_description insertTask,
             task_dueDate = dateColumn (it_dueDate insertTask),
             task_priority = Some (spread ''medium'' (it_priority insertTask)),
             task_status = status,
             task_completed = Some (spread False (it_completed insertTask)),
             task_assignedTo = Some (spread ''Self'' (it_assignedTo insertTask)),
             task_userId = it_userId insertTask,
             task_recurring = it_recurring insertTask,
             task_createdAt = now\<rparr>;
          db' = db\<lparr>db_tasks_seq := db_tasks_seq db + 1\<rparr>
      in if int4 (it_userId insertTask) \<and> int4 (db_tasks_seq db)
         then (case insertRow task_id row (db_tasks db) of
                 Inl e \<Rightarrow> (Inl e, db')
               | Inr rows \<Rightarrow> (Inr row, db'\<lparr>db_tasks := rows\<rparr>))
         else (Inl NumericValueOutOfRange, db))"

text \<open>\<^verbatim>\<open>.set({ ...data, status: updatedStatus })\<close>: whether it has no value at all,
  whether its numbers fit their columns, and what it writes to one row.\<close>

definition noTaskValues :: "task_patch \<Rightarrow> string option \<Rightarrow> bool" where
  "noTaskValues data updatedStatus \<longleftrightarrow>
     pt_id data = None \<and> pt_title data = None \<and> pt_description data = None \<and>
     pt_dueDate data = None \<and> pt_priority data = None \<and> updatedStatus = None \<and>
     pt_completed data = None \<and> pt_assignedTo data = None \<and> pt_userId data = None \<and>
     pt_recurring data = None \<and> pt_createdAt data = None"

definition taskValuesFit :: "task_patch \<Rightarrow> bool" where
  "taskValuesFit data \<longleftrightarrow> int4Opt (pt_id data) \<and> int4Opt (pt_userId data)"

definition setTask :: "task_patch \<Rightarrow> string option \<Rightarrow> task \<Rightarrow> task" where
  "setTask data updatedStatus row =
     spreadTask row
       (data\<lparr>pt_status := updatedStatus,
             pt_dueDate := map_option dateColumn (pt_dueDate data)\<rparr>)"

definition DatabaseStorage_updateTask ::
    "int \<Rightarrow> int \<Rightarrow> nat \<Rightarrow> task_patch \<Rightarrow> db_storage \<Rightarrow> (db_error + task option) \<times> db_storage" where
  "DatabaseStorage_updateTask tz now i data db =
     (case DatabaseStorage_getTask i db of
        Inl e \<Rightarrow> (Inl e, db)
      | Inr None \<Rightarrow> (Inr None, db)
      | Inr (Some task) \<Rightarrow>
          (let updatedStatus =
                 (case pt_completed data of
                    None \<Rightarrow> pt_status data
                  | Some c \<Rightarrow>
                      if c then Some ''completed''
                      else
                        (let today = setHours0 tz now;
                             dueDate =
                               (case pt_dueDate data of
                                  Some d \<Rightarrow> getTime d
                                | None \<Rightarrow> getTime (task_dueDate task))
                         in if dueDate < today then Some ''overdue''
                            else if dueDate = today then Some ''today''
                            else Some ''upcoming''))
           in if noTaskValues data updatedStatus then (Inl NoValuesToSet, db)
              else if taskValuesFit data
              then (case updateById task_id i (setTask data updatedStatus) (db_tasks db) of
                      Inl e \<Rightarrow> (Inl e, db)
                    | Inr (updatedTask, rows) \<Rightarrow> (Inr updatedTask, db\<lparr>db_tasks := rows\<rparr>))
              else (Inl NumericValueOutOfRange, db)))"

definition DatabaseStorage_deleteTask :: "nat \<Rightarrow> db_storage \<Rightarrow> (db_error + bool) \<times> db_storage" where
  "DatabaseStorage_deleteTask i db =
     (case deleteById task_id i (db_tasks db) of
        Inl e \<Rightarrow> (Inl e, db)
      | Inr (count, rows) \<Rightarrow> (Inr (count > 0), db\<lparr>db_tasks := rows\<rparr>))"

subsection \<open>Inventory\<close>

definition DatabaseStorage_getInventoryItem ::
    "nat \<Rightarrow> db_storage \<Rightarrow> db_error + inventory option" where
  "DatabaseStorage_getInventoryItem i db = selectById inv_id i (db_inventory db)"

text \<open>The status is computed from the caller's numbers; the columns \<^verbatim>\<open>quantity\<close> and
  \<^verbatim>\<open>threshold\<close> are of type \<^verbatim>\<open>real\<close>.\<close>

definition DatabaseStorage_createInventoryItem ::
    "int \<Rightarrow> insert_inventory \<Rightarrow> db_storage \<Rightarrow> (db_error + inventory) \<times> db_storage" where
  "DatabaseStorage_createInventoryItem now insertItem db =
     (let status = (if ii_quantity insertItem < ii_threshold insertItem then ''low'' else ''good'');
          row =
            \<lparr>inv_id = db_inventory_seq db,
             inv_name = ii_name insertItem,
             inv_category = ii_category insertItem,
             inv_quantity = realColumn (ii_quantity insertItem),
             inv_unit = ii_unit insertItem,
             inv_threshold = realColumn (ii_threshold insertItem),
             inv_status = status,
             inv_userId = ii_userId insertItem,
             inv_lastUpdated = now\<rparr>;
          db' = db\<lparr>db_inventory_seq := db_inventory_seq db + 1\<rparr>
      in if float4Fits (ii_quantity insertItem) \<and> float4Fits (ii_threshold insertItem) \<and>
            int4 (ii_userId insertItem) \<and> int4 (db_inventory_seq db)
         then (case insertRow inv_id row (db_inventory db) of
                 Inl e \<Rightarrow> (Inl e, db')
               | Inr rows \<Rightarrow> (Inr row, db'\<lparr>db_inventory := rows\<rparr>))
         else (Inl NumericValueOutOfRange, db))"

text \<open>\<^verbatim>\<open>.set({ ...data, status: updatedStatus })\<close> for an inventory row.\<close>

definition noInventoryValues :: "inventory_patch \<Rightarrow> string option \<Rightarrow> bool" where
  "noInventoryValues data updatedStatus \<longleftrightarrow>
     pi_id data = None \<and> pi_name data = None \<and> pi_category data = None \<and>
     pi_quantity data = None \<and> pi_unit data = None \<and> pi_threshold data = None \<and>
     updatedStatus = None \<and> pi_userId data = None \<and> pi_lastUpdated data = None"

definition inventoryValuesFit :: "inventory_patch \<Rightarrow> bool" where
  "inventoryValuesFit data \<longleftrightarrow>
     int4Opt (pi_id data) \<and> int4Opt (pi_userId data) \<and>
     float4FitsOpt (pi_quantity data) \<and> float4FitsOpt (pi_threshold data)"

definition setInventory :: "inventory_patch \<Rightarrow> string option \<Rightarrow> inventory \<Rightarrow> inventory" where
  "setInventory data updatedStatus row =
     spreadInventory row
       (data\<lparr>pi_status := updatedStatus,
             pi_quantity := map_option realColumn (pi_quantity data),
             pi_threshold := map_option realColumn (pi_threshold data)\<rparr>)"

definition DatabaseStorage_updateInventoryItem ::
    "nat \<Rightarrow> inventory_patch \<Rightarrow> db_storage \<Rightarrow> (db_error + inventory option) \<times> db_storage" where
  "DatabaseStorage_updateInventoryItem i data db =
     (case DatabaseStorage_getInventoryItem i db of
        Inl e \<Rightarrow> (Inl e, db)
      | Inr None \<Rightarrow> (Inr None, db)
      | Inr (Some item) \<Rightarrow>
          (let updatedStatus =
                 (if pi_quantity data \<noteq> None \<or> pi_threshold data \<noteq> None
                  then
                    (let quantity = spread (inv_quantity item) (pi_quantity data);
                         threshold = spread (inv_threshold item) (pi_threshold data)
                     in Some (if quantity < threshold then ''low'' else ''good''))
                  else pi_status data)
           in if noInventoryValues data updatedStatus then (Inl NoValuesToSet, db)
              else if inventoryValuesFit data
              then (case updateById inv_id i (setInventory data updatedStatus) (db_inventory db) of
                      Inl e \<Rightarrow> (Inl e, db)
                    | Inr (updatedItem, rows) \<Rightarrow>
                        (Inr updatedItem, db\<lparr>db_inventory := rows\<rparr>))
              else (Inl NumericValueOutOfRange, db)))"

definition DatabaseStorage_deleteInventoryItem ::
    "nat \<Rightarrow> db_storage \<Rightarrow> (db_error + bool) \<times> db_storage" where
  "DatabaseStorage_deleteInventoryItem i db =
     (case deleteById inv_id i (db_inventory db) of
        Inl e \<Rightarrow> (Inl e, db)
      | Inr (count, rows) \<Rightarrow> (Inr (count > 0), db\<lparr>db_inventory := rows\<rparr>))"

subsection \<open>Equipment\<close>

definition DatabaseStorage_getEquipmentItem ::
    "nat \<Rightarrow> db_storage \<Rightarrow> db_error + equipment option" where
  "DatabaseStorage_getEquipmentItem i db = selectById eq_id i (db_equipment db)"





definition DatabaseStorage_deleteEquipmentItem ::
    "nat \<Rightarrow> db_storage \<Rightarrow> (db_error + bool) \<times> db_storage" where
  "DatabaseStorage_deleteEquipmentItem i db =
     (case deleteById eq_id i (db_equipment db) of
        Inl e \<Rightarrow> (Inl e, db)
      | Inr (count, rows) \<Rightarrow> (Inr (count > 0), db\<lparr>db_equipment := rows\<rparr>))"

subsection \<open>Contacts\<close>

definition DatabaseStorage_getContact :: "nat \<Rightarrow> db_storage \<Rightarrow> db_error + contact option" where
  "DatabaseStorage_getContact i db = selectById ct_id i (db_contacts db)"




definition DatabaseStorage_deleteContact ::
    "nat \<Rightarrow> db_storage \<Rightarrow> (db_error + bool) \<times> db_storage" where
  "DatabaseStorage_deleteContact i db =
     (case deleteById ct_id i (db_contacts db) of
        Inl e \<Rightarrow> (Inl e, db)
      | Inr (count, rows) \<Rightarrow> (Inr (count > 0), db\<lparr>db_contacts := rows\<rparr>))"

subsection \<open>Users\<close>

definition DatabaseStorage_getUser :: "nat \<Rightarrow> db_storage \<Rightarrow> db_error + user option" where
  "DatabaseStorage_getUser i db = selectById u_id i (db_users db)"




section \<open>The status rules as the specification words them\<close>

text \<open>The task status rule of the specification: completion first, then the due date's
  calendar day against the current calendar day, the time of day ignored on both
  sides. It is compared below with what the four inline conditionals of the storage
  layer compute.\<close>

definition taskStatusRule :: "int \<Rightarrow> int \<Rightarrow> bool \<Rightarrow> int \<Rightarrow> string" where
  "taskStatusRule tz now completed dueDate =
     (if completed then ''completed''
      else if dayOf tz dueDate < dayOf tz now then ''overdue''
      else if dayOf tz dueDate = dayOf tz now then ''today''
      else ''upcoming'')"


section \<open>Sequences of calls on the in-memory backend\<close>

text \<open>A caller of \<^verbatim>\<open>MemStorage\<close> is a sequence of calls of its methods; each call is
  listed with its arguments and the clock reading it makes. A call that throws leaves
  the store as it was.\<close>

datatype mem_op =
    CreateUser insert_user
  | UpdateUser nat user_patch
  | CreateTask int insert_task
  | UpdateTask int nat task_patch
  | DeleteTask nat
  | CreateInventoryItem int insert_inventory
  | UpdateInventoryItem int nat inventory_patch
  | DeleteInventoryItem nat
  | CreateEquipmentItem insert_equipment
  | UpdateEquipmentItem nat equipment_patch
  | DeleteEquipmentItem nat
  | CreateContact insert_contact
  | UpdateContact nat contact_patch
  | DeleteContact nat

fun MemStorage_call :: "int \<Rightarrow> mem_op \<Rightarrow> mem_storage \<Rightarrow> mem_storage" where
  "MemStorage_call tz (CreateUser ins) s = snd (MemStorage_createUser ins s)"
| "MemStorage_call tz (UpdateUser i data) s = snd (MemStorage_updateUser i data s)"
| "MemStorage_call tz (CreateTask now ins) s = snd (MemStorage_createTask tz now ins s)"
| "MemStorage_call tz (UpdateTask now i data) s = snd (MemStorage_updateTask tz now i data s)"
| "MemStorage_call tz (DeleteTask i) s = snd (MemStorage_deleteTask i s)"
| "MemStorage_call tz (CreateInventoryItem now ins) s =
     snd (MemStorage_createInventoryItem now ins s)"
| "MemStorage_call tz (UpdateInventoryItem now i data) s =
     snd (MemStorage_updateInventoryItem now i data s)"
| "MemStorage_call tz (DeleteInventoryItem i) s = snd (MemStorage_deleteInventoryItem i s)"
| "MemStorage_call tz (CreateEquipmentItem ins) s = snd (MemStorage_createEquipmentItem ins s)"
| "MemStorage_call tz (UpdateEquipmentItem i data) s =
     snd (MemStorage_updateEquipmentItem i data s)"
| "MemStorage_call tz (DeleteEquipmentItem i) s = snd (MemStorage_deleteEquipmentItem i s)"
| "MemStorage_call tz (CreateContact ins) s = snd (MemStorage_createContact ins s)"
| "MemStorage_call tz (UpdateContact i data) s = snd (MemStorage_updateContact i data s)"
| "MemStorage_call tz (DeleteContact i) s = snd (MemStorage_deleteContact i s)"

fun MemStorage_calls :: "int \<Rightarrow> mem_op list \<Rightarrow> mem_storage \<Rightarrow> mem_storage" where
  "MemStorage_calls tz [] s = s"
| "MemStorage_calls tz (op # ops) s = MemStorage_calls tz ops (MemStorage_call tz op s)"

text \<open>The five kinds of record with a counter, the counter and the keys of each.\<close>

datatype kind = Users | Tasks | InventoryItems | EquipmentItems | ContactItems

fun idCounter :: "kind \<Rightarrow> mem_storage \<Rightarrow> nat" where
  "idCounter Users s = userIdCounter s"
| "idCounter Tasks s = taskIdCounter s"
| "idCounter InventoryItems s = inventoryIdCounter s"
| "idCounter EquipmentItems s = equipmentIdCounter s"
| "idCounter ContactItems s = contactIdCounter s"

fun keysOf :: "kind \<Rightarrow> mem_storage \<Rightarrow> nat set" where
  "keysOf Users s = dom (users s)"
| "keysOf Tasks s = dom (tasks s)"
| "keysOf InventoryItems s = dom (inventoryItems s)"
| "keysOf EquipmentItems s = dom (equipmentItems s)"
| "keysOf ContactItems s = dom (contactItems s)"

text \<open>The identifier a call hands out: the \<^verbatim>\<open>id\<close> of the record a create returns.\<close>

definition assignedId :: "int \<Rightarrow> kind \<Rightarrow> mem_op \<Rightarrow> mem_storage \<Rightarrow> nat option" where
  "assignedId tz k op s =
     (case op of
        CreateUser ins \<Rightarrow>
          if k = Users then Some (u_id (fst (MemStorage_createUser ins s))) else None
      | CreateTask now ins \<Rightarrow>
          if k = Tasks then Some (task_id (fst (MemStorage_createTask tz now ins s))) else None
      | CreateInventoryItem now ins \<Rightarrow>
          if k = InventoryItems
          then Some (inv_id (fst (MemStorage_createInventoryItem now ins s))) else None
      | CreateEquipmentItem ins \<Rightarrow>
          if k = EquipmentItems
          then Some (eq_id (fst (MemStorage_createEquipmentItem ins s))) else None
      | CreateContact ins \<Rightarrow>
          if k = ContactItems then Some (ct_id (fst (MemStorage_createContact ins s))) else None
      | _ \<Rightarrow> None)"

text \<open>The identifiers of one kind handed out along a sequence of calls, in order.\<close>

fun assignedIds :: "int \<Rightarrow> kind \<Rightarrow> mem_op list \<Rightarrow> mem_storage \<Rightarrow> nat list" where
  "assignedIds tz k [] s = []"
| "assignedIds tz k (op # ops) s =
     (case assignedId tz k op s of
        None \<Rightarrow> assignedIds tz k ops (MemStorage_call tz op s)
      | Some j \<Rightarrow> j # assignedIds tz k ops (MemStorage_call tz op s))"

text \<open>The task invariant of the specification, and the patches that send a status only
  together with the completion flag.\<close>

definition statusMatchesFlag :: "task \<Rightarrow> bool" where
  "statusMatchesFlag t \<longleftrightarrow> (task_status t = ''completed'' \<longleftrightarrow> task_completed t = Some True)"

definition statusOnlyWithFlag :: "task_patch \<Rightarrow> bool" where
  "statusOnlyWithFlag data \<longleftrightarrow> pt_status data = None \<or> pt_completed data \<noteq> None"

definition patchesStatusOnlyWithFlag :: "mem_op \<Rightarrow> bool" where
  "patchesStatusOnlyWithFlag op =
     (case op of UpdateTask now i data \<Rightarrow> statusOnlyWithFlag data | _ \<Rightarrow> True)"

section \<open>Sample records\<close>

text \<open>The first inventory item of the constructor's demo data, created at instant 1000
  in each backend; the patch of the specification's scenario (restock to 12); a patch
  that lowers the threshold to the quantity in stock; and an
  item whose quantity 16777216 is below its threshold 16777217, two numbers that
  single precision does not tell apart.\<close>

definition tomatoSeeds :: insert_inventory where
  "tomatoSeeds =
     \<lparr>ii_name = ''Tomato Seeds'', ii_category = ''Seeds'', ii_quantity = 5,
      ii_unit = ''kg'', ii_threshold = 10, ii_userId = 1\<rparr>"






definition dbWithSeeds :: db_storage where
  "dbWithSeeds = snd (DatabaseStorage_createInventoryItem 1000 tomatoSeeds newDatabase)"

text \<open>A task due on 15 November 2023 (day 19676), created on 14 November at 22:13:20 UTC
  on a UTC host in each backend; patches that move the due date to 13 November
  (day 19674), with and without the completion flag, as a JSON body carries them;
  the flag alone; a status alone; the flag with a \<^verbatim>\<open>Date\<close> object for 15 November at
  midnight of a host two hours east of UTC; completion with a status.\<close>

definition plantMaize :: insert_task where
  "plantMaize =
     \<lparr>it_title = ''Plant maize'', it_description = None, it_dueDate = dateOnly 19676,
      it_priority = None, it_status = None, it_completed = Some False,
      it_assignedTo = None, it_userId = 1, it_recurring = None\<rparr>"

definition noTaskPatch :: task_patch where
  "noTaskPatch =
     \<lparr>pt_id = None, pt_title = None, pt_description = None, pt_dueDate = None,
      pt_priority = None, pt_status = None, pt_completed = None, pt_assignedTo = None,
      pt_userId = None, pt_recurring = None, pt_createdAt = None\<rparr>"


definition dueAndFlag :: task_patch where
  "dueAndFlag = noTaskPatch\<lparr>pt_dueDate := Some (dateOnly 19674), pt_completed := Some False\<rparr>"

definition flagOnly :: task_patch where
  "flagOnly = noTaskPatch\<lparr>pt_completed := Some False\<rparr>"

definition statusOnly :: task_patch where
  "statusOnly = noTaskPatch\<lparr>pt_status := Some ''completed''\<rparr>"


definition completeIt :: task_patch where
  "completeIt = noTaskPatch\<lparr>pt_completed := Some True, pt_status := Some ''upcoming''\<rparr>"

definition memWithTask :: mem_storage where
  "memWithTask = snd (MemStorage_createTask 0 1700000000000 plantMaize newMemStorage)"

definition dbWithTask :: db_storage where
  "dbWithTask = snd (DatabaseStorage_createTask 0 1700000000000 plantMaize newDatabase)"

text \<open>A user, a machine and a contact (the user and the machine are the constructor's
  demo data), the empty patches, and a store of each backend that holds one record
  of every kind under the identifier 1.\<close>

definition demoUser :: insert_user where
  "demoUser =
     \<lparr>iu_username = ''demo'', iu_password = ''password123'', iu_email = ''demo@example.com'',
      iu_name = ''Thomas Moyo'', iu_farmName = ''Green Valley Farm'', iu_role = Some ''farmer'',
      iu_profileImage = None, iu_language = Some ''en''\<rparr>"

definition tractor :: insert_equipment where
  "tractor =
     \<lparr>ie_name = ''Tractor'', ie_status = Some ''maintenance-due'',
      ie_lastUsed = Some (DateObject 1697328000000), ie_assignedTo = Some ''Thomas'',
      ie_nextService = Some (DateObject 1699142400000), ie_userId = 1\<rparr>"

definition agroDealer :: insert_contact where
  "agroDealer =
     \<lparr>ic_name = ''Agro Dealer'', ic_type = ''supplier'', ic_email = Some ''sales@agro.example'',
      ic_phone = None, ic_address = None, ic_notes = Some [], ic_userId = 1\<rparr>"




definition memDemo :: mem_storage where
  "memDemo =
     MemStorage_calls 0
       [CreateUser demoUser, CreateTask 1700000000000 plantMaize,
        CreateInventoryItem 1000 tomatoSeeds, CreateEquipmentItem tractor,
        CreateContact agroDealer] newMemStorage"

definition dbDemo :: db_storage where
  "dbDemo =
     \<lparr>db_users =
        [\<lparr>u_id = 1, u_username = ''demo'', u_password = ''password123'',
          u_email = ''demo@example.com'', u_name = ''Thomas Moyo'',
          u_farmName = ''Green Valley Farm'', u_role = Some ''farmer'',
          u_profileImage = None, u_language = Some ''en''\<rparr>],
      db_users_seq = 2,
      db_tasks = db_tasks dbWithTask,
      db_tasks_seq = 2,
      db_inventory = db_inventory dbWithSeeds,
      db_inventory_seq = 2,
      db_equipment =
        [\<lparr>eq_id = 1, eq_name = ''Tractor'', eq_status = Some ''maintenance-due'',
          eq_lastUsed = Some (dateOnly 19645), eq_assignedTo = Some ''Thomas'',
          eq_nextService = Some (dateOnly 19666), eq_userId = 1\<rparr>],
      db_equipment_seq = 2,
      db_contacts =
        [\<lparr>ct_id = 1, ct_name = ''Agro Dealer'', ct_type = ''supplier'',
          ct_email = Some ''sales@agro.example'', ct_phone = None, ct_address = None,
          ct_notes = None, ct_userId = 1\<rparr>],
      db_contacts_seq = 2\<rparr>"

section \<open>Properties\<close>

subsection \<open>Midnight and calendar days\<close>






subsection \<open>Spread, columns and tables\<close>

lemma spread_simps [simp]: "spread old None = old" "spread old (Some v) = v"
  by (simp_all add: spread_def)

lemma spreadSome_simps [simp]: "spreadSome old None = old" "spreadSome old (Some v) = Some v"
  by (simp_all add: spreadSome_def)

lemma getTime_dateColumn: "getTime (dateColumn (dateOnly d)) = d * msPerDay"
  by (simp add: dateColumn_def dateOnly_def)

lemma dateColumn_dateOnly [simp]: "dateColumn (dateOnly d) = dateOnly d"
  by (simp add: dateColumn_def dateOnly_def)

lemma float4_samples:
  "float4 5 = 5" "float4 10 = 10" "float4 12 = 12"
  "float4 16777216 = 16777216" "float4 16777217 = 16777216"
  by (simp_all add: float4_def exponentOf_def roundHalfEven_def pow2_def ilog2.simps Let_def)

lemma float4Fits_samples:
  "float4Fits 5" "float4Fits 10" "float4Fits 12" "float4Fits 16777216" "float4Fits 16777217"
  by (simp_all add: float4Fits_def float4_samples maxFloat4_def)

lemma exponent10Of_samples:
  "exponent10Of 5 = 0" "exponent10Of 10 = 1" "exponent10Of 12 = 1"
  "exponent10Of 16777216 = 7"
  by (simp_all add: exponent10Of_def ilog10.simps)

lemma float4out_small: "float4out 5 = 5" "float4out 10 = 10" "float4out 12 = 12"
  by (simp_all add: float4out_def exponent10Of_samples pow10_def float4_def exponentOf_def
      roundHalfEven_def pow2_def ilog2.simps Let_def)

lemma float4out_16777216: "float4out 16777216 = 16777216"
  by (simp add: float4out_def exponent10Of_samples pow10_def float4_def exponentOf_def
      roundHalfEven_def pow2_def ilog2.simps Let_def)

lemma float8_samples:
  "float8 5 = 5" "float8 10 = 10" "float8 12 = 12" "float8 16777216 = 16777216"
  by (simp_all add: float8_def exponentOf_def roundHalfEven_def pow2_def ilog2.simps Let_def)

lemma realColumn_samples:
  "realColumn 5 = 5" "realColumn 10 = 10" "realColumn 12 = 12"
  "realColumn 16777216 = 16777216" "realColumn 16777217 = 16777216"
  by (simp_all add: realColumn_def float4_samples float4out_small float4out_16777216
      float8_samples)

lemma int4_small [simp]: "int4 (Suc 0)" "int4 1" "int4 7" "\<not> int4 3000000000"
  by (simp_all add: int4_def)

lemma firstRow_map: "firstRow (map f rows) = map_option f (firstRow rows)"
  by (cases rows) (simp_all add: firstRow_def)

lemma firstRow_mem: "firstRow rows = Some r \<Longrightarrow> r \<in> set rows"
  by (cases rows) (simp_all add: firstRow_def)

lemma firstRow_None: "firstRow rows = None \<longleftrightarrow> rows = []"
  by (cases rows) (simp_all add: firstRow_def)

lemma selectById_Some:
  assumes "selectById key i rows = Inr (Some r)"
  shows "key r = i" and "r \<in> set rows" and "int4 i"
  using assms firstRow_mem [of "filter (\<lambda>r. key r = i) rows" r]
  by (auto simp: selectById_def split: if_splits)

lemma selectById_None: "selectById key i rows = Inr None \<longleftrightarrow> int4 i \<and> i \<notin> set (map key rows)"
proof -
  have "firstRow (filter (\<lambda>r. key r = i) rows) = None \<longleftrightarrow> i \<notin> set (map key rows)"
    by (auto simp: firstRow_None filter_empty_conv)
  then show ?thesis
    by (simp add: selectById_def)
qed

lemma selectById_Inl: "selectById key i rows = Inl e \<longleftrightarrow> \<not> int4 i \<and> e = NumericValueOutOfRange"
  by (auto simp: selectById_def)

lemma updateById_Inr:
  assumes "updateById key i f rows = Inr (r, rows')"
  shows "selectById key i rows = Inr (firstRow (filter (\<lambda>r. key r = i) rows))"
    and "r = map_option f (firstRow (filter (\<lambda>r. key r = i) rows))"
    and "rows' = map (\<lambda>r. if key r = i then f r else r) rows"
    and "distinct (map key rows')"
  using assms unfolding updateById_def selectById_def
  by (auto simp: Let_def firstRow_map split: if_splits)




subsection \<open>Creating a task\<close>

text \<open>
  Claim C1. Every task creation, in either backend, stores and returns the status of the
  rule: completed when the flag is set, otherwise overdue, today or upcoming by the due
  date's calendar day, whatever status the caller supplied.

  \<^verbatim>\<open>DatabaseStorage.createTask\<close> does not: it starts from the caller's status and has no
  branch that assigns \<^verbatim>\<open>"upcoming"\<close>, so for a due date after today the caller's status
  is stored. On 14 November 2023 (UTC host), a task due on 15 November, not completed,
  sent with status \<^verbatim>\<open>"overdue"\<close>, is stored as overdue; the rule says upcoming, and
  \<^verbatim>\<open>MemStorage.createTask\<close> stores upcoming for the same input.
\<close>

theorem DatabaseStorage_createTask_keeps_caller_status:
  "(case fst (DatabaseStorage_createTask 0 1700000000000
        \<lparr>it_title = ''Plant maize'', it_description = None, it_dueDate = dateOnly 19676,
         it_priority = None, it_status = Some ''overdue'', it_completed = Some False,
         it_assignedTo = None, it_userId = 1, it_recurring = None\<rparr> newDatabase) of
      Inl e \<Rightarrow> False
    | Inr task \<Rightarrow> task_status task = ''overdue'' \<and> task_completed task = Some False) \<and>
   getTime (dateOnly 19676) = 1700006400000 \<and>
   taskStatusRule 0 1700000000000 False 1700006400000 = ''upcoming'' \<and>
   task_status (fst (MemStorage_createTask 0 1700000000000
        \<lparr>it_title = ''Plant maize'', it_description = None, it_dueDate = dateOnly 19676,
         it_priority = None, it_status = Some ''overdue'', it_completed = Some False,
         it_assignedTo = None, it_userId = 1, it_recurring = None\<rparr> newMemStorage))
     = ''upcoming''"
  by (simp add: DatabaseStorage_createTask_def MemStorage_createTask_def insertRow_def
      newDatabase_def newMemStorage_def taskStatusRule_def dayOf_def setHours0_def
      msPerDay_def dateOnly_def dateColumn_def int4_def Let_def)

text \<open>Both backends compare the due date's instant with today's midnight, so a due date
  that carries a time of day on the current day is upcoming, not today: a task due on
  14 November 2023 at 15:00 UTC, created that day at 22:13.\<close>

lemma createTask_time_of_day:
  "task_status (fst (MemStorage_createTask 0 1700000000000
        \<lparr>it_title = ''Plant maize'', it_description = None,
         it_dueDate = DateString 19675 1699974000000,
         it_priority = None, it_status = None, it_completed = None,
         it_assignedTo = None, it_userId = 1, it_recurring = None\<rparr> newMemStorage))
     = ''upcoming'' \<and>
   taskStatusRule 0 1700000000000 False 1699974000000 = ''today''"
  by (simp add: MemStorage_createTask_def newMemStorage_def taskStatusRule_def dayOf_def
      setHours0_def msPerDay_def Let_def)

subsection \<open>The sample stores\<close>

lemma memWithTask_eq:
  "memWithTask =
     newMemStorage
       \<lparr>tasks := [1 \<mapsto>
          \<lparr>task_id = 1, task_title = ''Plant maize'', task_description = None,
           task_dueDate = DateObject 1700006400000, task_priority = None,
           task_status = ''upcoming'', task_completed = Some False,
           task_assignedTo = None, task_userId = 1, task_recurring = None,
           task_createdAt = 1700000000000\<rparr>],
        taskIdCounter := 2\<rparr>"
  by (simp add: memWithTask_def MemStorage_createTask_def newMemStorage_def plantMaize_def
      dateOnly_def setHours0_def msPerDay_def Let_def)

lemma dbWithTask_eq:
  "dbWithTask =
     newDatabase
       \<lparr>db_tasks :=
          [\<lparr>task_id = 1, task_title = ''Plant maize'', task_description = None,
            task_dueDate = DateString 19676 1700006400000, task_priority = Some ''medium'',
            task_status = ''upcoming'', task_completed = Some False,
            task_assignedTo = Some ''Self'', task_userId = 1, task_recurring = None,
            task_createdAt = 1700000000000\<rparr>],
        db_tasks_seq := 2\<rparr>"
  by (simp add: dbWithTask_def DatabaseStorage_createTask_def newDatabase_def plantMaize_def
      insertRow_def dateColumn_def dateOnly_def setHours0_def msPerDay_def int4_def Let_def)


lemma dbWithSeeds_eq:
  "dbWithSeeds =
     newDatabase
       \<lparr>db_inventory :=
          [\<lparr>inv_id = 1, inv_name = ''Tomato Seeds'', inv_category = ''Seeds'',
            inv_quantity = 5, inv_unit = ''kg'', inv_threshold = 10, inv_status = ''low'',
            inv_userId = 1, inv_lastUpdated = 1000\<rparr>],
        db_inventory_seq := 2\<rparr>"
  by (simp add: dbWithSeeds_def DatabaseStorage_createInventoryItem_def newDatabase_def
      tomatoSeeds_def insertRow_def realColumn_samples float4Fits_samples int4_def Let_def)

subsection \<open>Updating a task\<close>

text \<open>What \<^verbatim>\<open>updateTask\<close> does to an existing task, in each backend: the merged record,
  its status recomputed only under \<^verbatim>\<open>data.completed !== undefined\<close>.\<close>

lemma Mem_updateTask_eq:
  assumes "MemStorage_getTask i s = Some t"
  shows "MemStorage_updateTask tz now i data s =
     (case spread (task_dueDate t) (pt_dueDate data) of
        DateString w x \<Rightarrow>
          if pt_completed data = Some False then (Inl TypeError, s)
          else
            (Inr (Some ((spreadTask t data)\<lparr>task_status :=
                (if pt_completed data = None then spread (task_status t) (pt_status data)
                 else ''completed'')\<rparr>)),
             s\<lparr>tasks := (tasks s)(i \<mapsto> (spreadTask t data)\<lparr>task_status :=
                (if pt_completed data = None then spread (task_status t) (pt_status data)
                 else ''completed'')\<rparr>)\<rparr>)
      | DateObject d \<Rightarrow>
          (Inr (Some ((spreadTask t data)\<lparr>task_status :=
              (case pt_completed data of
                 None \<Rightarrow> spread (task_status t) (pt_status data)
               | Some c \<Rightarrow>
                   if c then ''completed''
                   else if d < setHours0 tz now then ''overdue''
                   else if d = setHours0 tz now then ''today''
                   else ''upcoming'')\<rparr>)),
           s\<lparr>tasks := (tasks s)(i \<mapsto> (spreadTask t data)\<lparr>task_status :=
              (case pt_completed data of
                 None \<Rightarrow> spread (task_status t) (pt_status data)
               | Some c \<Rightarrow>
                   if c then ''completed''
                   else if d < setHours0 tz now then ''overdue''
                   else if d = setHours0 tz now then ''today''
                   else ''upcoming'')\<rparr>)\<rparr>))"
proof -
  have sel: "task_dueDate (spreadTask t data) = spread (task_dueDate t) (pt_dueDate data)"
    by (simp add: spreadTask_def)
  have same: "(spreadTask t data)\<lparr>task_status := spread (task_status t) (pt_status data)\<rparr>
      = spreadTask t data"
    by (simp add: spreadTask_def)
  show ?thesis
  proof (cases "pt_completed data")
    case None
    with assms show ?thesis
      by (cases "spread (task_dueDate t) (pt_dueDate data)")
        (simp_all add: MemStorage_updateTask_def Let_def same)
  next
    case (Some c)
    with assms show ?thesis
      by (cases "spread (task_dueDate t) (pt_dueDate data)"; cases c)
        (simp_all add: MemStorage_updateTask_def Let_def sel)
  qed
qed

lemma Mem_updateTask_absent:
  "MemStorage_getTask i s = None \<Longrightarrow> MemStorage_updateTask tz now i data s = (Inr None, s)"
  by (simp add: MemStorage_updateTask_def)

lemma Mem_updateTask_Some:
  assumes "MemStorage_updateTask tz now i data s = (Inr (Some t'), s')"
  obtains t where "MemStorage_getTask i s = Some t"
    and "t' = (spreadTask t data)\<lparr>task_status :=
          (case pt_completed data of
             None \<Rightarrow> spread (task_status t) (pt_status data)
           | Some c \<Rightarrow>
               if c then ''completed''
               else if getTime (spread (task_dueDate t) (pt_dueDate data)) < setHours0 tz now
                 then ''overdue''
               else if getTime (spread (task_dueDate t) (pt_dueDate data)) = setHours0 tz now
                 then ''today''
               else ''upcoming'')\<rparr>"
    and "s' = s\<lparr>tasks := (tasks s)(i \<mapsto> t')\<rparr>"
proof -
  from assms obtain t where g: "MemStorage_getTask i s = Some t"
    by (cases "MemStorage_getTask i s") (simp_all add: Mem_updateTask_absent)
  show thesis
  proof (cases "spread (task_dueDate t) (pt_dueDate data)")
    case (DateObject d)
    with assms show thesis
      unfolding Mem_updateTask_eq [OF g]
      by (intro that [of t] g) (auto split: option.splits)
  next
    case (DateString w x)
    with assms show thesis
      unfolding Mem_updateTask_eq [OF g]
      by (intro that [of t] g) (auto split: option.splits if_splits)
  qed
qed

lemma Db_updateTask_absent:
  "DatabaseStorage_getTask i db = Inr None \<Longrightarrow>
   DatabaseStorage_updateTask tz now i data db = (Inr None, db)"
  by (simp add: DatabaseStorage_updateTask_def)

lemma Db_updateTask_eq:
  assumes "DatabaseStorage_getTask i db = Inr (Some t)"
  shows "DatabaseStorage_updateTask tz now i data db =
     (let st =
            (case pt_completed data of
               None \<Rightarrow> pt_status data
             | Some c \<Rightarrow>
                 Some (if c then ''completed''
                       else if getTime (spread (task_dueDate t) (pt_dueDate data))
                               < setHours0 tz now then ''overdue''
                       else if getTime (spread (task_dueDate t) (pt_dueDate data))
                               = setHours0 tz now then ''today''
                       else ''upcoming''))
      in if noTaskValues data st then (Inl NoValuesToSet, db)
         else if taskValuesFit data
         then (case updateById task_id i (setTask data st) (db_tasks db) of
                 Inl e \<Rightarrow> (Inl e, db)
               | Inr (updatedTask, rows) \<Rightarrow> (Inr updatedTask, db\<lparr>db_tasks := rows\<rparr>))
         else (Inl NumericValueOutOfRange, db))"
proof -
  have "(case pt_completed data of
          None \<Rightarrow> pt_status data
        | Some c \<Rightarrow>
            if c then Some ''completed''
            else
              (let today = setHours0 tz now;
                   dueDate =
                     (case pt_dueDate data of
                        Some d \<Rightarrow> getTime d
                      | None \<Rightarrow> getTime (task_dueDate t))
               in if dueDate < today then Some ''overdue''
                  else if dueDate = today then Some ''today''
                  else Some ''upcoming'')) =
        (case pt_completed data of
           None \<Rightarrow> pt_status data
         | Some c \<Rightarrow>
             Some (if c then ''completed''
                   else if getTime (spread (task_dueDate t) (pt_dueDate data))
                           < setHours0 tz now then ''overdue''
                   else if getTime (spread (task_dueDate t) (pt_dueDate data))
                           = setHours0 tz now then ''today''
                   else ''upcoming''))"
    by (cases "pt_completed data"; cases "pt_dueDate data") (simp_all add: Let_def)
  then show ?thesis
    unfolding DatabaseStorage_updateTask_def assms by (simp add: Let_def)
qed















text \<open>The in-memory \<^verbatim>\<open>updateTask\<close> reads the merged due date without \<^verbatim>\<open>new Date\<close>, which
  \<^verbatim>\<open>createTask\<close> and the database \<^verbatim>\<open>updateTask\<close> apply: with the flag false and a due
  date that is a string, as a JSON body carries it, it throws and stores nothing.\<close>

lemma MemStorage_updateTask_string_dueDate:
  "MemStorage_updateTask 0 1700000000000 1 dueAndFlag memWithTask = (Inl TypeError, memWithTask)"
  by (simp add: MemStorage_updateTask_def MemStorage_getTask_def memWithTask_eq
      newMemStorage_def dueAndFlag_def noTaskPatch_def spreadTask_def dateOnly_def Let_def)



subsection \<open>Status and completion flag\<close>

lemma Mem_createTask_matches: "statusMatchesFlag (fst (MemStorage_createTask tz now ins s))"
  by (simp add: MemStorage_createTask_def statusMatchesFlag_def Let_def)

lemma Mem_updateTask_matches:
  assumes u: "MemStorage_updateTask tz now i data s = (Inr (Some t'), s')"
    and g: "MemStorage_getTask i s = Some t"
    and m: "statusMatchesFlag t"
    and p: "statusOnlyWithFlag data"
  shows "statusMatchesFlag t'"
proof (cases "pt_completed data")
  case None
  with p have "pt_status data = None"
    by (simp add: statusOnlyWithFlag_def)
  with u g None m show ?thesis
    by (elim Mem_updateTask_Some) (simp add: statusMatchesFlag_def spreadTask_def)
next
  case (Some c)
  with u g show ?thesis
    by (elim Mem_updateTask_Some) (simp add: statusMatchesFlag_def spreadTask_def)
qed

lemma Mem_updateTask_tasks:
  "tasks (snd (MemStorage_updateTask tz now i data s)) =
     (case fst (MemStorage_updateTask tz now i data s) of
        Inr (Some t') \<Rightarrow> (tasks s)(i \<mapsto> t')
      | _ \<Rightarrow> tasks s)"
proof (cases "MemStorage_getTask i s")
  case None
  then show ?thesis
    by (simp add: Mem_updateTask_absent)
next
  case (Some t)
  show ?thesis
    unfolding Mem_updateTask_eq [OF Some]
    by (cases "spread (task_dueDate t) (pt_dueDate data)") simp_all
qed

lemma Mem_createTask_tasks:
  "tasks (snd (MemStorage_createTask tz now ins s)) =
     (tasks s)(taskIdCounter s \<mapsto> fst (MemStorage_createTask tz now ins s))"
  by (simp add: MemStorage_createTask_def Let_def)

lemma other_calls_tasks:
  "tasks (snd (MemStorage_createUser insu s)) = tasks s"
  "tasks (snd (MemStorage_updateUser i du s)) = tasks s"
  "tasks (snd (MemStorage_createInventoryItem now insi s)) = tasks s"
  "tasks (snd (MemStorage_updateInventoryItem now i di s)) = tasks s"
  "tasks (snd (MemStorage_deleteInventoryItem i s)) = tasks s"
  "tasks (snd (MemStorage_createEquipmentItem inse s)) = tasks s"
  "tasks (snd (MemStorage_updateEquipmentItem i de s)) = tasks s"
  "tasks (snd (MemStorage_deleteEquipmentItem i s)) = tasks s"
  "tasks (snd (MemStorage_createContact insc s)) = tasks s"
  "tasks (snd (MemStorage_updateContact i dc s)) = tasks s"
  "tasks (snd (MemStorage_deleteContact i s)) = tasks s"
  by (simp_all add: MemStorage_createUser_def MemStorage_updateUser_def
      MemStorage_createInventoryItem_def MemStorage_updateInventoryItem_def
      MemStorage_deleteInventoryItem_def MemStorage_createEquipmentItem_def
      MemStorage_updateEquipmentItem_def MemStorage_deleteEquipmentItem_def
      MemStorage_createContact_def MemStorage_updateContact_def MemStorage_deleteContact_def
      Let_def split: option.splits)

lemma Mem_call_matches:
  assumes "patchesStatusOnlyWithFlag op"
    and inv: "\<forall>t \<in> ran (tasks s). statusMatchesFlag t"
  shows "\<forall>t \<in> ran (tasks (MemStorage_call tz op s)). statusMatchesFlag t"
proof (cases op)
  case (CreateTask now ins)
  show ?thesis
    unfolding CreateTask MemStorage_call.simps Mem_createTask_tasks
    using inv Mem_createTask_matches [of tz now ins s]
    by (auto simp: ran_def)
next
  case (UpdateTask now i data)
  show ?thesis
  proof (cases "MemStorage_updateTask tz now i data s")
    case (Pair r s')
    show ?thesis
    proof (cases "\<exists>t'. r = Inr (Some t')")
      case False
      then have "(case r of Inr (Some t') \<Rightarrow> (tasks s)(i \<mapsto> t') | _ \<Rightarrow> tasks s) = tasks s"
        by (auto split: sum.splits option.splits)
      with Pair inv show ?thesis
        unfolding UpdateTask MemStorage_call.simps Mem_updateTask_tasks by simp
    next
      case True
      then obtain t' where r: "r = Inr (Some t')"
        by blast
      with Pair obtain t where g: "MemStorage_getTask i s = Some t"
        by (auto elim: Mem_updateTask_Some)
      then have "t \<in> ran (tasks s)"
        by (auto simp: MemStorage_getTask_def ran_def)
      with inv have "statusMatchesFlag t" by simp
      with Pair r g assms(1) have "statusMatchesFlag t'"
        unfolding UpdateTask patchesStatusOnlyWithFlag_def
        by (auto intro: Mem_updateTask_matches)
      with Pair r inv show ?thesis
        unfolding UpdateTask MemStorage_call.simps Mem_updateTask_tasks
        by (auto simp: ran_def)
    qed
  qed
next
  case (DeleteTask i)
  with inv show ?thesis
    by (auto simp: MemStorage_deleteTask_def ran_def split: if_splits)
qed (use inv in \<open>simp_all add: other_calls_tasks\<close>)

lemma Mem_calls_matches:
  assumes "\<forall>op \<in> set ops. patchesStatusOnlyWithFlag op"
    and "\<forall>t \<in> ran (tasks s). statusMatchesFlag t"
  shows "\<forall>t \<in> ran (tasks (MemStorage_calls tz ops s)). statusMatchesFlag t"
  using assms
proof (induction ops arbitrary: s)
  case Nil
  then show ?case by simp
next
  case (Cons op ops)
  from Cons.prems have "\<forall>t \<in> ran (tasks (MemStorage_call tz op s)). statusMatchesFlag t"
    by (intro Mem_call_matches) simp_all
  with Cons.prems show ?case
    by (simp add: Cons.IH)
qed

lemma setTask_matches:
  assumes "statusMatchesFlag r"
    and "case pt_completed data of
           None \<Rightarrow> st = None
         | Some c \<Rightarrow> \<exists>v. st = Some v \<and> (v = ''completed'' \<longleftrightarrow> c)"
  shows "statusMatchesFlag (setTask data st r)"
  using assms
  by (cases "pt_completed data") (auto simp: statusMatchesFlag_def setTask_def spreadTask_def)

lemma Db_updateTask_matches:
  assumes inv: "\<forall>r \<in> set (db_tasks db). statusMatchesFlag r"
    and p: "statusOnlyWithFlag data"
  shows "\<forall>r \<in> set (db_tasks (snd (DatabaseStorage_updateTask tz now i data db))).
           statusMatchesFlag r"
proof (cases "\<exists>t. DatabaseStorage_getTask i db = Inr (Some t)")
  case False
  then have "snd (DatabaseStorage_updateTask tz now i data db) = db"
    by (auto simp: DatabaseStorage_updateTask_def split: sum.splits option.splits)
  with inv show ?thesis
    by simp
next
  case True
  then obtain t where g: "DatabaseStorage_getTask i db = Inr (Some t)"
    by blast
  define st where "st =
     (case pt_completed data of
        None \<Rightarrow> pt_status data
      | Some c \<Rightarrow>
          Some (if c then ''completed''
                else if getTime (spread (task_dueDate t) (pt_dueDate data))
                        < setHours0 tz now then ''overdue''
                else if getTime (spread (task_dueDate t) (pt_dueDate data))
                        = setHours0 tz now then ''today''
                else ''upcoming''))"
  have st: "case pt_completed data of
           None \<Rightarrow> st = None
         | Some c \<Rightarrow> \<exists>v. st = Some v \<and> (v = ''completed'' \<longleftrightarrow> c)"
    using p by (cases "pt_completed data") (auto simp: st_def statusOnlyWithFlag_def)
  have db': "snd (DatabaseStorage_updateTask tz now i data db) = db \<or>
      (\<exists>r rows. updateById task_id i (setTask data st) (db_tasks db) = Inr (r, rows) \<and>
         snd (DatabaseStorage_updateTask tz now i data db) = db\<lparr>db_tasks := rows\<rparr>)"
    unfolding Db_updateTask_eq [OF g] st_def [symmetric]
    by (auto simp: Let_def split: sum.splits prod.splits)
  then show ?thesis
  proof
    assume "snd (DatabaseStorage_updateTask tz now i data db) = db"
    with inv show ?thesis
      by simp
  next
    assume "\<exists>r rows. updateById task_id i (setTask data st) (db_tasks db) = Inr (r, rows) \<and>
         snd (DatabaseStorage_updateTask tz now i data db) = db\<lparr>db_tasks := rows\<rparr>"
    then obtain r rows
      where u: "updateById task_id i (setTask data st) (db_tasks db) = Inr (r, rows)"
        and s: "snd (DatabaseStorage_updateTask tz now i data db) = db\<lparr>db_tasks := rows\<rparr>"
      by blast
    from updateById_Inr(3) [OF u]
    have "rows = map (\<lambda>r. if task_id r = i then setTask data st r else r) (db_tasks db)" .
    with inv setTask_matches [OF _ st] have "\<forall>r \<in> set rows. statusMatchesFlag r"
      by auto
    with s show ?thesis
      by simp
  qed
qed

lemma Db_createTask_matches:
  assumes inv: "\<forall>r \<in> set (db_tasks db). statusMatchesFlag r"
    and p: "it_status ins = None"
  shows "\<forall>r \<in> set (db_tasks (snd (DatabaseStorage_createTask tz now ins db))).
           statusMatchesFlag r"
  using assms
  by (cases "it_completed ins";
      auto simp: DatabaseStorage_createTask_def insertRow_def statusMatchesFlag_def Let_def)

text \<open>
  Claim C4, as the specification words it: no create or patch, also one that sends a
  status directly, can store a task whose status is \<^verbatim>\<open>"completed"\<close> while its flag is
  not true, or the converse.

  Both backends merge a status sent in the patch when the patch has no \<^verbatim>\<open>completed\<close>
  key (\<^verbatim>\<open>{ ...task, ...data }\<close>, \<^verbatim>\<open>let updatedStatus = data.status\<close>). The task created
  above, patched with \<^verbatim>\<open>{ status: "completed" }\<close>, is stored with that status and the
  flag false.
\<close>

theorem updateTask_status_without_flag_breaks_invariant:
  "MemStorage_getTask 1
     (MemStorage_calls 0
        [CreateTask 1700000000000 plantMaize, UpdateTask 1700000000000 1 statusOnly]
        newMemStorage) =
     Some \<lparr>task_id = 1, task_title = ''Plant maize'', task_description = None,
           task_dueDate = DateObject 1700006400000, task_priority = None,
           task_status = ''completed'', task_completed = Some False,
           task_assignedTo = None, task_userId = 1, task_recurring = None,
           task_createdAt = 1700000000000\<rparr> \<and>
   DatabaseStorage_getTask 1
     (snd (DatabaseStorage_updateTask 0 1700000000000 1 statusOnly dbWithTask)) =
     Inr (Some \<lparr>task_id = 1, task_title = ''Plant maize'', task_description = None,
           task_dueDate = DateString 19676 1700006400000, task_priority = Some ''medium'',
           task_status = ''completed'', task_completed = Some False,
           task_assignedTo = Some ''Self'', task_userId = 1, task_recurring = None,
           task_createdAt = 1700000000000\<rparr>)"
  by (simp add: MemStorage_updateTask_def MemStorage_getTask_def MemStorage_createTask_def
      DatabaseStorage_updateTask_def DatabaseStorage_getTask_def dbWithTask_eq
      newMemStorage_def newDatabase_def plantMaize_def statusOnly_def noTaskPatch_def
      noTaskValues_def taskValuesFit_def int4Opt_def int4_def
      updateById_def selectById_def firstRow_def setTask_def spreadTask_def dateColumn_def
      dateOnly_def setHours0_def msPerDay_def Let_def)

text \<open>
  Claim C4, amended. Along any sequence of calls on the in-memory backend in which every
  \<^verbatim>\<open>updateTask\<close> patch that sends a status also sends the completion flag, every stored
  task has status \<^verbatim>\<open>"completed"\<close> exactly when its flag is true (from a store where
  that holds, as the new store). In the database backend \<^verbatim>\<open>updateTask\<close> with such a
  patch keeps the equivalence on every row, and \<^verbatim>\<open>createTask\<close> keeps it when the caller
  sends no status. A patch that sends a status without the flag stores that status
  as sent.
\<close>

theorem status_completed_iff_flag_invariant:
  "((\<forall>op \<in> set ops. patchesStatusOnlyWithFlag op) \<and>
      (\<forall>t \<in> ran (tasks s). statusMatchesFlag t) \<longrightarrow>
      (\<forall>t \<in> ran (tasks (MemStorage_calls tz1 ops s)). statusMatchesFlag t)) \<and>
   ran (tasks newMemStorage) = {} \<and>
   ((\<forall>r \<in> set (db_tasks db2). statusMatchesFlag r) \<and> statusOnlyWithFlag data2 \<longrightarrow>
      (\<forall>r \<in> set (db_tasks (snd (DatabaseStorage_updateTask tz2 now2 i2 data2 db2))).
         statusMatchesFlag r)) \<and>
   ((\<forall>r \<in> set (db_tasks db3). statusMatchesFlag r) \<and> it_status ins3 = None \<longrightarrow>
      (\<forall>r \<in> set (db_tasks (snd (DatabaseStorage_createTask tz3 now3 ins3 db3))).
         statusMatchesFlag r)) \<and>
   db_tasks newDatabase = []"
proof (intro conjI impI; (elim conjE)?)
  assume "\<forall>op \<in> set ops. patchesStatusOnlyWithFlag op"
    and "\<forall>t \<in> ran (tasks s). statusMatchesFlag t"
  then show "\<forall>t \<in> ran (tasks (MemStorage_calls tz1 ops s)). statusMatchesFlag t"
    by (rule Mem_calls_matches)
next
  show "ran (tasks newMemStorage) = {}"
    by (simp add: newMemStorage_def)
next
  assume "\<forall>r \<in> set (db_tasks db2). statusMatchesFlag r" and "statusOnlyWithFlag data2"
  then show "\<forall>r \<in> set (db_tasks (snd (DatabaseStorage_updateTask tz2 now2 i2 data2 db2))).
         statusMatchesFlag r"
    by (rule Db_updateTask_matches)
next
  assume "\<forall>r \<in> set (db_tasks db3). statusMatchesFlag r" and "it_status ins3 = None"
  then show "\<forall>r \<in> set (db_tasks (snd (DatabaseStorage_createTask tz3 now3 ins3 db3))).
         statusMatchesFlag r"
    by (rule Db_createTask_matches)
next
  show "db_tasks newDatabase = []"
    by (simp add: newDatabase_def)
qed

text \<open>The task created above, then patched with the flag on 16 November, then completed
  with a patch that also sends the status \<^verbatim>\<open>"upcoming"\<close>: it is stored as completed,
  in both backends.\<close>

theorem status_completed_iff_flag_invariant_witness:
  "patchesStatusOnlyWithFlag (CreateTask 1700000000000 plantMaize) \<and>
   patchesStatusOnlyWithFlag (UpdateTask 1700100000000 1 flagOnly) \<and>
   patchesStatusOnlyWithFlag (UpdateTask 1700100000000 1 completeIt) \<and>
   MemStorage_getTask 1
     (MemStorage_calls 0
        [CreateTask 1700000000000 plantMaize, UpdateTask 1700100000000 1 flagOnly]
        newMemStorage) =
     Some \<lparr>task_id = 1, task_title = ''Plant maize'', task_description = None,
       task_dueDate = DateObject 1700006400000, task_priority = None,
       task_status = ''overdue'', task_completed = Some False,
       task_assignedTo = None, task_userId = 1, task_recurring = None,
       task_createdAt = 1700000000000\<rparr> \<and>
   ran (tasks
     (MemStorage_calls 0
        [CreateTask 1700000000000 plantMaize, UpdateTask 1700100000000 1 flagOnly,
         UpdateTask 1700100000000 1 completeIt] newMemStorage)) =
     {\<lparr>task_id = 1, task_title = ''Plant maize'', task_description = None,
       task_dueDate = DateObject 1700006400000, task_priority = None,
       task_status = ''completed'', task_completed = Some True,
       task_assignedTo = None, task_userId = 1, task_recurring = None,
       task_createdAt = 1700000000000\<rparr>} \<and>
   statusOnlyWithFlag completeIt \<and> it_status plantMaize = None \<and>
   list_all statusMatchesFlag (db_tasks dbWithTask) \<and>
   db_tasks dbWithTask \<noteq> [] \<and>
   list_all statusMatchesFlag
     (db_tasks (snd (DatabaseStorage_updateTask 0 1700000000000 1 completeIt dbWithTask))) \<and>
   map task_status
     (db_tasks (snd (DatabaseStorage_updateTask 0 1700000000000 1 completeIt dbWithTask))) =
     [''completed'']"
  using status_completed_iff_flag_invariant
    [where ops = "[CreateTask 1700000000000 plantMaize, UpdateTask 1700100000000 1 flagOnly,
         UpdateTask 1700100000000 1 completeIt]" and s = newMemStorage and ?tz1.0 = 0
      and ?db2.0 = dbWithTask and ?data2.0 = completeIt and ?tz2.0 = 0
      and ?now2.0 = 1700000000000 and ?i2.0 = 1
      and ?db3.0 = newDatabase and ?ins3.0 = plantMaize and ?tz3.0 = 0
      and ?now3.0 = 1700000000000]
  by (simp add: MemStorage_updateTask_def MemStorage_getTask_def MemStorage_createTask_def
      DatabaseStorage_updateTask_def DatabaseStorage_getTask_def
      DatabaseStorage_createTask_def dbWithTask_eq newMemStorage_def
      newDatabase_def plantMaize_def completeIt_def flagOnly_def noTaskPatch_def
      noTaskValues_def taskValuesFit_def int4Opt_def int4_def
      insertRow_def updateById_def selectById_def firstRow_def setTask_def spreadTask_def
      dateColumn_def dateOnly_def setHours0_def msPerDay_def Let_def statusMatchesFlag_def
      statusOnlyWithFlag_def patchesStatusOnlyWithFlag_def)

subsection \<open>Inventory status\<close>


lemma Mem_updateInventoryItem_absent:
  "MemStorage_getInventoryItem i s = None \<Longrightarrow>
   MemStorage_updateInventoryItem now i data s = (None, s)"
  by (simp add: MemStorage_updateInventoryItem_def)






lemma Db_updateInventoryItem_absent:
  "DatabaseStorage_getInventoryItem i db = Inr None \<Longrightarrow>
   DatabaseStorage_updateInventoryItem i data db = (Inr None, db)"
  by (simp add: DatabaseStorage_updateInventoryItem_def)










subsection \<open>The stores with one record of each kind\<close>


lemma memDemo_present:
  "MemStorage_getTask 1 memDemo \<noteq> None" "MemStorage_getInventoryItem 1 memDemo \<noteq> None"
  "MemStorage_getEquipmentItem 1 memDemo \<noteq> None" "MemStorage_getContact 1 memDemo \<noteq> None"
  "MemStorage_getUser 1 memDemo \<noteq> None"
  by (simp_all add: memDemo_def newMemStorage_def MemStorage_getTask_def
      MemStorage_getInventoryItem_def MemStorage_getEquipmentItem_def
      MemStorage_getContact_def MemStorage_getUser_def MemStorage_createUser_def
      MemStorage_createTask_def MemStorage_createInventoryItem_def
      MemStorage_createEquipmentItem_def MemStorage_createContact_def Let_def)

lemma dbDemo_keys:
  "map task_id (db_tasks dbDemo) = [1]" "map inv_id (db_inventory dbDemo) = [1]"
  "map eq_id (db_equipment dbDemo) = [1]" "map ct_id (db_contacts dbDemo) = [1]"
  "map u_id (db_users dbDemo) = [1]" "map u_username (db_users dbDemo) = [''demo'']"
  "map u_email (db_users dbDemo) = [''demo@example.com'']"
  by (simp_all add: dbDemo_def dbWithTask_eq dbWithSeeds_eq newDatabase_def)



lemma selectById_present:
  "int4 i \<Longrightarrow> i \<in> set (map key rows) \<Longrightarrow> \<exists>r. selectById key i rows = Inr (Some r)"
  using selectById_None [of key i rows]
  by (cases "selectById key i rows") (auto simp: selectById_Inl simp del: set_map)

lemma dbDemo_present:
  "\<exists>r. DatabaseStorage_getTask 1 dbDemo = Inr (Some r)"
  "\<exists>r. DatabaseStorage_getInventoryItem 1 dbDemo = Inr (Some r)"
  "\<exists>r. DatabaseStorage_getEquipmentItem 1 dbDemo = Inr (Some r)"
  "\<exists>r. DatabaseStorage_getContact 1 dbDemo = Inr (Some r)"
  "\<exists>r. DatabaseStorage_getUser 1 dbDemo = Inr (Some r)"
  unfolding DatabaseStorage_getTask_def DatabaseStorage_getInventoryItem_def
    DatabaseStorage_getEquipmentItem_def DatabaseStorage_getContact_def
    DatabaseStorage_getUser_def
  by (rule selectById_present; simp add: dbDemo_keys del: set_map)+

subsection \<open>Patching a record that does not exist\<close>







end
